theory Spec2Isabelle
  imports Complex_Main "HOL-Library.Multiset"
begin

section \<open>Python values: errors and numpy floats\<close>

text \<open>
  The exceptions that the modelled functions of \<^verbatim>\<open>DPOD/models_handler.py\<close> can raise.
  The last two stand for the errors of the libraries: of \<^verbatim>\<open>scipy.interpolate.griddata\<close>
  and of \<^verbatim>\<open>cv2\<close>.
\<close>

datatype py_error = ValueError | IndexError | KeyError | AttributeError | QhullError | Cv2Error

text \<open>
  A numpy \<^verbatim>\<open>float64\<close>, as far as the code can tell values apart: the finite values are
  taken as reals (rounding is not modelled), and the three special values that a
  division by zero produces are kept. numpy does not raise on a float division by
  zero: \<^verbatim>\<open>0/0\<close> is \<^verbatim>\<open>nan\<close>, \<^verbatim>\<open>a/0\<close> is plus or minus \<^verbatim>\<open>inf\<close>.
\<close>

datatype npfloat = Fin real | PosInf | NegInf | NaN

definition np_div :: "real \<Rightarrow> real \<Rightarrow> npfloat" where
  "np_div a b =
     (if b \<noteq> 0 then Fin (a / b)
      else if a = 0 then NaN
      else if 0 < a then PosInf else NegInf)"

text \<open>\<^verbatim>\<open>x % m\<close> on floats, for a positive modulus: the result has the sign of \<open>m\<close>.\<close>

definition fmod :: "real \<Rightarrow> real \<Rightarrow> real" where
  "fmod r m = r - m * of_int \<lfloor>r / m\<rfloor>"

fun np_mod :: "npfloat \<Rightarrow> real \<Rightarrow> npfloat" where
  "np_mod (Fin r) m = Fin (fmod r m)"
| "np_mod PosInf m = NaN"
| "np_mod NegInf m = NaN"
| "np_mod NaN m = NaN"

text \<open>\<^verbatim>\<open>x.min()\<close> and \<^verbatim>\<open>x.max()\<close> of a non-empty one-dimensional array.\<close>

fun amin :: "real list \<Rightarrow> real" where
  "amin [] = 0"
| "amin [x] = x"
| "amin (x # xs) = min x (amin xs)"

fun amax :: "real list \<Rightarrow> real" where
  "amax [] = 0"
| "amax [x] = x"
| "amax (x # xs) = max x (amax xs)"

section \<open>The colour codec\<close>

text \<open>
  \<^verbatim>\<open>
  @staticmethod
  def normalize_to_256(x):
      return 256 * (x - x.min()) / (x.max() - x.min()) % 256
  \<close>
  \<^verbatim>\<open>*\<close>, \<^verbatim>\<open>/\<close> and \<^verbatim>\<open>%\<close> associate to the left. \<^verbatim>\<open>x.min()\<close> raises
  \<^verbatim>\<open>ValueError\<close> on an empty array.
\<close>

definition normalize_to_256 :: "real list \<Rightarrow> py_error + npfloat list" where
  "normalize_to_256 x =
     (if x = [] then Inl ValueError
      else Inr (map (\<lambda>v. np_mod (np_div (256 * (v - amin x)) (amax x - amin x)) 256) x))"

text \<open>
  \<^verbatim>\<open>np.arctan2(x1, x2)\<close>, the angle of the point \<open>(x2, x1)\<close> in \<open>(-\<pi>, \<pi>]\<close>
  (signed zeros are not modelled).
\<close>

definition arctan2 :: "real \<Rightarrow> real \<Rightarrow> real" where
  "arctan2 x1 x2 =
     (if 0 < x2 then arctan (x1 / x2)
      else if x2 < 0 then (if 0 \<le> x1 then arctan (x1 / x2) + pi else arctan (x1 / x2) - pi)
      else if 0 < x1 then pi / 2
      else if x1 < 0 then - (pi / 2)
      else 0)"

text \<open>
  \<^verbatim>\<open>.astype(int)\<close> truncates a finite float towards zero. On \<^verbatim>\<open>nan\<close> and the
  infinities it does not raise: the cast gives the smallest 64-bit integer (numpy on
  x86-64, with a warning only).
\<close>

fun astype_int :: "npfloat \<Rightarrow> int" where
  "astype_int (Fin r) = (if 0 \<le> r then \<lfloor>r\<rfloor> else \<lceil>r\<rceil>)"
| "astype_int PosInf = - (2 ^ 63)"
| "astype_int NegInf = - (2 ^ 63)"
| "astype_int NaN = - (2 ^ 63)"

type_synonym point3 = "real \<times> real \<times> real"

text \<open>
  \<^verbatim>\<open>
  def color_points(self, points, model_id):
      h_colors = points[:, 1]
      r_colors = np.arctan2(*points[:, [0, 2]].T)
      h_colors = self.normalize_to_256(h_colors)
      r_colors = self.normalize_to_256(r_colors)
      colors = np.array([(model_id, hc, rc) for hc, rc in zip(h_colors, r_colors)]).astype(int)
      return colors
  \<close>
  \<open>points\<close> is an \<open>(n, 3)\<close> array, \<open>model_id\<close> an integer.
\<close>

definition color_points :: "point3 list \<Rightarrow> int \<Rightarrow> py_error + (int \<times> int \<times> int) list" where
  "color_points points model_id =
     (case normalize_to_256 (map (\<lambda>(x, y, z). y) points) of
        Inl e \<Rightarrow> Inl e
      | Inr h_colors \<Rightarrow>
          (case normalize_to_256 (map (\<lambda>(x, y, z). arctan2 x z) points) of
             Inl e \<Rightarrow> Inl e
           | Inr r_colors \<Rightarrow>
               Inr (map (\<lambda>(hc, rc). (model_id, astype_int hc, astype_int rc))
                      (zip h_colors r_colors))))"

section \<open>Indexing and errors\<close>

text \<open>
  \<^verbatim>\<open>xs[i]\<close> for an integer \<open>i\<close>: a negative index counts from the end, an index
  outside the array raises \<^verbatim>\<open>IndexError\<close>.
\<close>

definition np_index :: "'a list \<Rightarrow> int \<Rightarrow> py_error + 'a" where
  "np_index xs i =
     (let n = int (length xs)
      in if 0 \<le> i \<and> i < n then Inr (xs ! nat i)
         else if - n \<le> i \<and> i < 0 then Inr (xs ! nat (i + n))
         else Inl IndexError)"

text \<open>
  A function that may raise, applied to the elements of a list from left to right: the
  first error ends the whole computation. \<open>ebind\<close> runs one step after another in the
  same way.
\<close>

fun map_err :: "('a \<Rightarrow> py_error + 'b) \<Rightarrow> 'a list \<Rightarrow> py_error + 'b list" where
  "map_err f [] = Inr []"
| "map_err f (x # xs) =
     (case f x of
        Inl e \<Rightarrow> Inl e
      | Inr y \<Rightarrow> (case map_err f xs of Inl e \<Rightarrow> Inl e | Inr ys \<Rightarrow> Inr (y # ys)))"

definition ebind :: "py_error + 'a \<Rightarrow> ('a \<Rightarrow> py_error + 'b) \<Rightarrow> py_error + 'b" where
  "ebind m f = (case m of Inl e \<Rightarrow> Inl e | Inr x \<Rightarrow> f x)"

section \<open>Models and the handler\<close>

text \<open>
  A face is a triple of vertex indices; a rotation matrix is given by its three rows. A
  model as its JSON file gives it: the vertices, and the faces with indices counted from
  1.
\<close>

type_synonym triangle = "int \<times> int \<times> int"
type_synonym mat3 = "point3 \<times> point3 \<times> point3"

record raw_model =
  vertices :: "point3 list"
  faces :: "triangle list"

text \<open>
  A point as an interpolation returns it: each coordinate is a float that may be
  \<^verbatim>\<open>nan\<close>.
\<close>

type_synonym fpoint3 = "npfloat \<times> npfloat \<times> npfloat"

datatype interpolation = Linear | Nearest

text \<open>
  The object \<^verbatim>\<open>self\<close> and what the code reaches through it or through its imports, none
  of which is code of this repository:
  \<^item> \<^verbatim>\<open>self.raw_models\<close>, the models read from the JSON files, by name;
  \<^item> \<^verbatim>\<open>car_id2name\<close> of \<^verbatim>\<open>DPOD.apolloscape_specs\<close>;
  \<^item> \<^verbatim>\<open>cv2.projectPoints\<close> with \<^verbatim>\<open>self.camera_matrix\<close> and no rotation,
    translation or distortion;
  \<^item> \<^verbatim>\<open>cv2.fillConvexPoly(image, coord, color)\<close>, which paints on the image;
  \<^item> \<^verbatim>\<open>scipy.interpolate.griddata(points, values, xi, method)\<close>: for the samples
    \<open>points\<close> with \<open>values\<close>, the value at each grid position of \<open>xi\<close>, or an error;
  \<^item> \<^verbatim>\<open>cv2.solvePnPRansac(object_points, image_points, camera_matrix, None)\<close>:
    \<^verbatim>\<open>retval, rvec, tvec, inliers\<close>, where \<^verbatim>\<open>inliers\<close> is an array of row indices or
    \<^verbatim>\<open>None\<close>, or an error;
  \<^item> \<^verbatim>\<open>cv2.Rodrigues(src)\<close>, which returns the tuple \<^verbatim>\<open>(dst, jacobian)\<close>.
\<close>

record 'img handler =
  raw_models :: "string \<rightharpoonup> raw_model"
  car_id2name :: "int \<rightharpoonup> string"
  projectPoints :: "point3 list \<Rightarrow> (real \<times> real) list"
  fillConvexPoly :: "'img \<Rightarrow> (int \<times> int) list \<Rightarrow> int list \<Rightarrow> 'img"
  griddata :: "interpolation \<Rightarrow> (int \<times> int) list \<Rightarrow> point3 list
                 \<Rightarrow> py_error + (nat \<Rightarrow> nat \<Rightarrow> fpoint3)"
  solvePnPRansac :: "fpoint3 list \<Rightarrow> int list list
                 \<Rightarrow> py_error + (bool \<times> real list list \<times> real list list \<times> int list option)"
  Rodrigues :: "real list list \<Rightarrow> real list list \<times> real list list"

section \<open>The model renderer\<close>


text \<open>
  \<^verbatim>\<open>
  def model_id_to_vertices_and_triangles(self, model_id):
      if model_id in self.raw_models:
          data = self.raw_models[model_id]
      elif model_id in car_id2name:
          data = self.raw_models[car_id2name[model_id]]
      else:
          raise KeyError
      vertices = np.array(data['vertices'])
      vertices[:, 1] = -vertices[:, 1]
      triangles = np.array(data['faces']) - 1
      return vertices, triangles
  \<close>
  The model identifier is an integer here (the engine passes a class number), and the
  keys of \<^verbatim>\<open>raw_models\<close> are names, so the first branch is not taken. An empty vertex
  list makes a one-dimensional array, on which \<^verbatim>\<open>vertices[:, 1]\<close> raises
  \<^verbatim>\<open>IndexError\<close>.
\<close>

definition model_id_to_vertices_and_triangles ::
  "'img handler \<Rightarrow> int \<Rightarrow> py_error + (point3 list \<times> triangle list)" where
  "model_id_to_vertices_and_triangles self model_id =
     (case car_id2name self model_id of
        None \<Rightarrow> Inl KeyError
      | Some name \<Rightarrow>
          (case raw_models self name of
             None \<Rightarrow> Inl KeyError
           | Some data \<Rightarrow>
               if vertices data = [] then Inl IndexError
               else Inr (map (\<lambda>(x, y, z). (x, - y, z)) (vertices data),
                         map (\<lambda>(a, b, c). (a - 1, b - 1, c - 1)) (faces data))))"

text \<open>
  \<^verbatim>\<open>(vertices[triangles[:, 0]] + vertices[triangles[:, 1]] + vertices[triangles[:, 2]]) / 3\<close>:
  the mid-point of each face. With no face at all, \<^verbatim>\<open>triangles\<close> is a one-dimensional
  array and \<^verbatim>\<open>triangles[:, 0]\<close> raises \<^verbatim>\<open>IndexError\<close>.
\<close>

definition face_mid_point :: "point3 list \<Rightarrow> triangle \<Rightarrow> py_error + point3" where
  "face_mid_point vs t =
     (case t of (a, b, c) \<Rightarrow>
        ebind (np_index vs a) (\<lambda>(ax, ay, az).
        ebind (np_index vs b) (\<lambda>(bx, by, bz).
        ebind (np_index vs c) (\<lambda>(cx, cy, cz).
          Inr ((ax + bx + cx) / 3, (ay + by + cy) / 3, (az + bz + cz) / 3)))))"

definition faces_mid_points :: "point3 list \<Rightarrow> triangle list \<Rightarrow> py_error + point3 list" where
  "faces_mid_points vs triangles =
     (if triangles = [] then Inl IndexError else map_err (face_mid_point vs) triangles)"

text \<open>
  \<^verbatim>\<open>np.argsort(ks)\<close>: the indices of \<open>ks\<close> in an order that sorts it. Equal keys keep the
  order of their indices here; numpy does not promise an order among them.
\<close>

definition argsort :: "real list \<Rightarrow> nat list" where
  "argsort ks = map snd (sort_key fst (zip ks [0..<length ks]))"



text \<open>
  \<^verbatim>\<open>
  def draw_triangles(image, vertices, triangles, color=(0, 0, 255), colors=None):
      if colors is not None:
          for n, t in enumerate(triangles):
              coord = np.array([vertices[t[0]][:2], vertices[t[1]][:2], vertices[t[2]][:2]],
                               dtype=np.int32)
              cv2.fillConvexPoly(image, coord, colors[n].tolist())
  \<close>
  \<^verbatim>\<open>draw_model\<close> always gives \<^verbatim>\<open>colors\<close>. The conversion to \<^verbatim>\<open>np.int32\<close> truncates
  towards zero.
\<close>

definition trunc :: "real \<Rightarrow> int" where
  "trunc r = (if 0 \<le> r then \<lfloor>r\<rfloor> else \<lceil>r\<rceil>)"

definition triangle_coord :: "(real \<times> real) list \<Rightarrow> triangle \<Rightarrow> py_error + (int \<times> int) list" where
  "triangle_coord vs t =
     (case t of (a, b, c) \<Rightarrow>
        ebind (np_index vs a) (\<lambda>(ax, ay).
        ebind (np_index vs b) (\<lambda>(bx, by).
        ebind (np_index vs c) (\<lambda>(cx, cy).
          Inr [(trunc ax, trunc ay), (trunc bx, trunc by), (trunc cx, trunc cy)]))))"



text \<open>
  The depth of a point in camera space is its third coordinate. \<open>fill_all\<close> paints a list
  of polygons on an image, one after the other.
\<close>

definition depth :: "point3 \<Rightarrow> real" where
  "depth p = (case p of (x, y, z) \<Rightarrow> z)"



section \<open>Arrays of the pose recovery engine\<close>

text \<open>
  A three-dimensional array of shape \<open>(dim0, dim1, dim2)\<close> and a two-dimensional one of
  shape \<open>(rows, cols)\<close>: the shape and the element at each index. Only indices inside
  the shape are ever read.
\<close>

record 'a tensor3 =
  dim0 :: nat
  dim1 :: nat
  dim2 :: nat
  elems :: "nat \<Rightarrow> nat \<Rightarrow> nat \<Rightarrow> 'a"

record 'a array2 =
  rows :: nat
  cols :: nat
  cells :: "nat \<Rightarrow> nat \<Rightarrow> 'a"

text \<open>\<^verbatim>\<open>softmax(t, dim=0)\<close>: a new tensor, the input is left as it is.\<close>

definition softmax :: "real tensor3 \<Rightarrow> real tensor3" where
  "softmax t =
     t\<lparr>elems := \<lambda>c h w. exp (elems t c h w) / (\<Sum>k\<leftarrow>[0..<dim0 t]. exp (elems t k h w))\<rparr>"

text \<open>\<^verbatim>\<open>np.argmax\<close> of a one-dimensional array: the first index of the largest value.\<close>

fun argmax_scan :: "real list \<Rightarrow> nat \<Rightarrow> nat \<Rightarrow> real \<Rightarrow> nat" where
  "argmax_scan [] i best_i best_v = best_i"
| "argmax_scan (y # ys) i best_i best_v =
     (if best_v < y then argmax_scan ys (Suc i) i y else argmax_scan ys (Suc i) best_i best_v)"

fun argmax_list :: "real list \<Rightarrow> nat" where
  "argmax_list [] = 0"
| "argmax_list (x # xs) = argmax_scan xs 1 0 x"

text \<open>
  \<^verbatim>\<open>np.argmax(t, axis=0)\<close>: for each \<open>(h, w)\<close>, the argmax of the column
  \<open>t[:, h, w]\<close>. numpy raises \<^verbatim>\<open>ValueError\<close> when that axis is empty.
\<close>

definition column :: "'a tensor3 \<Rightarrow> nat \<Rightarrow> nat \<Rightarrow> 'a list" where
  "column t h w = map (\<lambda>c. elems t c h w) [0..<dim0 t]"

definition argmax_axis0 :: "real tensor3 \<Rightarrow> py_error + nat array2" where
  "argmax_axis0 t =
     (if dim0 t = 0 then Inl ValueError
      else Inr \<lparr>rows = dim1 t, cols = dim2 t, cells = \<lambda>h w. argmax_list (column t h w)\<rparr>)"

text \<open>The index pairs of a two-dimensional shape, in row-major order.\<close>

definition positions :: "nat \<Rightarrow> nat \<Rightarrow> (nat \<times> nat) list" where
  "positions m n = concat (map (\<lambda>h. map (\<lambda>w. (h, w)) [0..<n]) [0..<m])"

text \<open>\<^verbatim>\<open>a[a != background_id]\<close>: the selected values, flattened in row-major order.\<close>

definition select_not_equal :: "nat array2 \<Rightarrow> int \<Rightarrow> nat list" where
  "select_not_equal a background_id =
     filter (\<lambda>v. int v \<noteq> background_id) (map (\<lambda>(h, w). cells a h w) (positions (rows a) (cols a)))"

text \<open>
  \<^verbatim>\<open>scipy.stats.mode(xs).mode.item()\<close>: the most frequent value, the smallest one when
  several are as frequent. On an empty array the mode is an empty array, and
  \<^verbatim>\<open>.item()\<close> raises \<^verbatim>\<open>ValueError\<close>.
\<close>

fun most_frequent :: "nat list \<Rightarrow> nat list \<Rightarrow> nat" where
  "most_frequent xs [] = 0"
| "most_frequent xs [c] = c"
| "most_frequent xs (c # cs) =
     (let b = most_frequent xs cs
      in if count_list xs c < count_list xs b then b else c)"

definition mode_item :: "nat list \<Rightarrow> py_error + nat" where
  "mode_item xs = (if xs = [] then Inl ValueError else Inr (most_frequent xs (sort (remdups xs))))"

text \<open>\<^verbatim>\<open>clasification == most_frequent_class\<close>: an elementwise comparison of the scores
  with the class number, of the shape of \<^verbatim>\<open>clasification\<close>.\<close>

definition equals_scalar :: "real tensor3 \<Rightarrow> nat \<Rightarrow> bool tensor3" where
  "equals_scalar t k =
     \<lparr>dim0 = dim0 t, dim1 = dim1 t, dim2 = dim2 t, elems = \<lambda>c h w. elems t c h w = real k\<rparr>"

text \<open>\<^verbatim>\<open>np.argwhere(mask)\<close>: the indices of the true elements, in row-major order.\<close>

definition argwhere :: "bool tensor3 \<Rightarrow> (nat \<times> nat \<times> nat) list" where
  "argwhere msk =
     filter (\<lambda>(c, h, w). elems msk c h w)
       (concat (map (\<lambda>c. map (\<lambda>(h, w). (c, h, w)) (positions (dim1 msk) (dim2 msk)))
                  [0..<dim0 msk]))"

text \<open>An index into an axis of length \<open>n\<close>: negative indices count from the end.\<close>

definition wrap_index :: "nat \<Rightarrow> int \<Rightarrow> py_error + nat" where
  "wrap_index n i =
     (if 0 \<le> i \<and> i < int n then Inr (nat i)
      else if - int n \<le> i \<and> i < 0 then Inr (nat (i + int n))
      else Inl IndexError)"

definition wrap_pair :: "nat \<Rightarrow> nat \<Rightarrow> int \<times> int \<Rightarrow> py_error + (nat \<times> nat)" where
  "wrap_pair m n p =
     (case p of (a, b) \<Rightarrow>
        ebind (wrap_index m a) (\<lambda>h. ebind (wrap_index n b) (\<lambda>w. Inr (h, w))))"

text \<open>
  \<^verbatim>\<open>
  probabilities[ :, inliers[:, 0], inliers[:, 1]] = 0
  probabilities[-1, inliers[:, 0], inliers[:, 1]] = 1
  \<close>
  The indices are checked before anything is written.
\<close>

definition treat_as_background ::
  "real tensor3 \<Rightarrow> (int \<times> int) list \<Rightarrow> py_error + real tensor3" where
  "treat_as_background probabilities inliers =
     ebind (map_err (wrap_pair (dim1 probabilities) (dim2 probabilities)) inliers) (\<lambda>ps.
       Inr (probabilities\<lparr>elems := \<lambda>c h w.
              if (h, w) \<in> set ps
              then (if Suc c = dim0 probabilities then 1 else 0)
              else elems probabilities c h w\<rparr>))"

section \<open>The multi-instance pose recovery engine\<close>

text \<open>
  What \<^verbatim>\<open>pnp_ransac_single_instance2(color_u, color_v, mask, model_id)\<close> returns:
  \<^verbatim>\<open>converged, inliers, translation_vector, rotation_matrix\<close>. The engine calls it
  through \<^verbatim>\<open>self\<close>; it is a parameter of the loop here.
\<close>

type_synonym solved = "bool \<times> (int \<times> int) list \<times> real list list \<times> real list list"

type_synonym single_solver =
  "nat array2 \<Rightarrow> nat array2 \<Rightarrow> bool tensor3 \<Rightarrow> nat \<Rightarrow> py_error + solved"

text \<open>
  The variables of a call of \<^verbatim>\<open>pnp_ransac_multiple_instances\<close>: its three arguments,
  and the two objects it mutates: \<^verbatim>\<open>probabilities\<close> (the fresh tensor that
  \<^verbatim>\<open>softmax\<close> returned) and the list \<^verbatim>\<open>output\<close>.
\<close>

record frame =
  clasification :: "real tensor3"
  correspondence_u :: "real tensor3"
  correspondence_v :: "real tensor3"
  probabilities :: "real tensor3"
  "output" :: "(nat \<times> real list list \<times> real list list) list"

text \<open>How a call ends: it returns, it raises, or it is still in its loop when the
  iterations allowed to it are used up.\<close>

datatype 'a outcome = Returned 'a | Raised py_error | Running

text \<open>
  The first statements of the loop body, up to the arguments of the solver call:
  \<^verbatim>\<open>
      most_probable_class_pixelwise = np.argmax(probabilities, axis=0)
      most_frequent_class = mode(most_probable_class_pixelwise[
          most_probable_class_pixelwise != background_id]).mode.item()
      model_id = most_frequent_class
      ... (clasification == most_frequent_class, model_id)
  \<close>
  The result is the mask and the model identifier that the solver is called with.
\<close>

definition solver_input :: "frame \<Rightarrow> int \<Rightarrow> py_error + (bool tensor3 \<times> nat)" where
  "solver_input s background_id =
     ebind (argmax_axis0 (probabilities s)) (\<lambda>most_probable_class_pixelwise.
     ebind (mode_item (select_not_equal most_probable_class_pixelwise background_id))
       (\<lambda>most_frequent_class.
          Inr (equals_scalar (clasification s) most_frequent_class, most_frequent_class)))"

text \<open>
  \<^verbatim>\<open>
  while True:
      ...
      converged, inliers, translation_vector, rotation_matrix = \
          self.pnp_ransac_single_instance2(color_u, color_v,
                                           clasification == most_frequent_class, model_id)
      if not converged:
          break
      probabilities[ :, inliers[:, 0], inliers[:, 1]] = 0
      probabilities[-1, inliers[:, 0], inliers[:, 1]] = 1
      output.append((model_id, translation_vector, rotation_matrix))
  return output
  \<close>
  The first argument of \<open>recovery_loop\<close> bounds the number of iterations.
\<close>

fun recovery_loop ::
  "nat \<Rightarrow> single_solver \<Rightarrow> nat array2 \<Rightarrow> nat array2 \<Rightarrow> int \<Rightarrow> frame
     \<Rightarrow> (nat \<times> real list list \<times> real list list) list outcome \<times> frame" where
  "recovery_loop 0 solve color_u color_v background_id s = (Running, s)"
| "recovery_loop (Suc n) solve color_u color_v background_id s =
     (case solver_input s background_id of
        Inl e \<Rightarrow> (Raised e, s)
      | Inr (msk, model_id) \<Rightarrow>
          (case solve color_u color_v msk model_id of
             Inl e \<Rightarrow> (Raised e, s)
           | Inr (converged, inliers, translation_vector, rotation_matrix) \<Rightarrow>
               if \<not> converged then (Returned (output s), s)
               else
                 (case treat_as_background (probabilities s) inliers of
                    Inl e \<Rightarrow> (Raised e, s)
                  | Inr p \<Rightarrow>
                      recovery_loop n solve color_u color_v background_id
                        (s\<lparr>probabilities := p,
                           output := output s @
                             [(model_id, translation_vector, rotation_matrix)]\<rparr>))))"

text \<open>
  \<^verbatim>\<open>
  def pnp_ransac_multiple_instances(self, clasification, correspondence_u, correspondence_v):
      output = []
      background_threshold = 0.5
      probabilities = softmax(clasification, dim=0)
      color_u = np.argmax(correspondence_u, axis=0)
      color_v = np.argmax(correspondence_v, axis=0)
      background_id = clasification.shape[0]-1
      while True: ...
  \<close>
  The arguments \<open>cl\<close>, \<open>cu\<close> and \<open>cv\<close> are \<^verbatim>\<open>clasification\<close>,
  \<^verbatim>\<open>correspondence_u\<close> and \<^verbatim>\<open>correspondence_v\<close>.
\<close>

definition pnp_ransac_multiple_instances ::
  "nat \<Rightarrow> single_solver \<Rightarrow> real tensor3 \<Rightarrow> real tensor3 \<Rightarrow> real tensor3
     \<Rightarrow> (nat \<times> real list list \<times> real list list) list outcome \<times> frame" where
  "pnp_ransac_multiple_instances fuel solve cl cu cv =
     (let s = \<lparr>clasification = cl, correspondence_u = cu, correspondence_v = cv,
                probabilities = softmax cl, output = []\<rparr>
      in case argmax_axis0 cu of
           Inl e \<Rightarrow> (Raised e, s)
         | Inr color_u \<Rightarrow>
             (case argmax_axis0 cv of
                Inl e \<Rightarrow> (Raised e, s)
              | Inr color_v \<Rightarrow>
                  recovery_loop fuel solve color_u color_v (int (dim0 cl) - 1) s))"

text \<open>
  The pixels that the specification lets an iteration hand to the solver: those whose most
  likely class (the argmax over the class probabilities) is the given class.
\<close>

definition spec_selected_pixels :: "nat array2 \<Rightarrow> nat \<Rightarrow> (nat \<times> nat) list" where
  "spec_selected_pixels most_probable_class_pixelwise k =
     filter (\<lambda>(h, w). cells most_probable_class_pixelwise h w = k)
       (positions (rows most_probable_class_pixelwise) (cols most_probable_class_pixelwise))"

section \<open>Runs of the engine with a randomised solver\<close>

text \<open>
  The pose estimation inside the solver draws random samples, so one call of the solver
  may have several possible results. Here the solver is a relation between its arguments
  and a result, and \<open>loop_run\<close> relates a frame at the head of the loop to the way the
  loop can end from there: the same loop as \<open>recovery_loop\<close>, one rule for each way
  through its body.
\<close>

type_synonym solver_relation =
  "nat array2 \<Rightarrow> nat array2 \<Rightarrow> bool tensor3 \<Rightarrow> nat \<Rightarrow> py_error + solved \<Rightarrow> bool"

inductive loop_run ::
  "solver_relation \<Rightarrow> nat array2 \<Rightarrow> nat array2 \<Rightarrow> int \<Rightarrow> frame
     \<Rightarrow> (nat \<times> real list list \<times> real list list) list outcome \<times> frame \<Rightarrow> bool"
  for solves :: solver_relation and color_u :: "nat array2" and color_v :: "nat array2"
    and background_id :: int
  where
    input_raises:
      "solver_input s background_id = Inl e \<Longrightarrow>
       loop_run solves color_u color_v background_id s (Raised e, s)"
  | solver_raises:
      "solver_input s background_id = Inr (msk, model_id) \<Longrightarrow>
       solves color_u color_v msk model_id (Inl e) \<Longrightarrow>
       loop_run solves color_u color_v background_id s (Raised e, s)"
  | not_converged:
      "solver_input s background_id = Inr (msk, model_id) \<Longrightarrow>
       solves color_u color_v msk model_id
         (Inr (False, inliers, translation_vector, rotation_matrix)) \<Longrightarrow>
       loop_run solves color_u color_v background_id s (Returned (output s), s)"
  | marking_raises:
      "solver_input s background_id = Inr (msk, model_id) \<Longrightarrow>
       solves color_u color_v msk model_id
         (Inr (True, inliers, translation_vector, rotation_matrix)) \<Longrightarrow>
       treat_as_background (probabilities s) inliers = Inl e \<Longrightarrow>
       loop_run solves color_u color_v background_id s (Raised e, s)"
  | next_round:
      "solver_input s background_id = Inr (msk, model_id) \<Longrightarrow>
       solves color_u color_v msk model_id
         (Inr (True, inliers, translation_vector, rotation_matrix)) \<Longrightarrow>
       treat_as_background (probabilities s) inliers = Inr p \<Longrightarrow>
       loop_run solves color_u color_v background_id
         (s\<lparr>probabilities := p,
            output := output s @ [(model_id, translation_vector, rotation_matrix)]\<rparr>) res \<Longrightarrow>
       loop_run solves color_u color_v background_id s res"

text \<open>A run of \<^verbatim>\<open>pnp_ransac_multiple_instances\<close> on its three arguments.\<close>

inductive engine_run ::
  "solver_relation \<Rightarrow> real tensor3 \<Rightarrow> real tensor3 \<Rightarrow> real tensor3
     \<Rightarrow> (nat \<times> real list list \<times> real list list) list outcome \<times> frame \<Rightarrow> bool"
  for solves :: solver_relation and cl :: "real tensor3" and cu :: "real tensor3"
    and cv :: "real tensor3"
  where
    color_u_raises:
      "argmax_axis0 cu = Inl e \<Longrightarrow>
       engine_run solves cl cu cv
         (Raised e, \<lparr>clasification = cl, correspondence_u = cu, correspondence_v = cv,
                      probabilities = softmax cl, output = []\<rparr>)"
  | color_v_raises:
      "argmax_axis0 cu = Inr color_u \<Longrightarrow> argmax_axis0 cv = Inl e \<Longrightarrow>
       engine_run solves cl cu cv
         (Raised e, \<lparr>clasification = cl, correspondence_u = cu, correspondence_v = cv,
                      probabilities = softmax cl, output = []\<rparr>)"
  | enters_loop:
      "argmax_axis0 cu = Inr color_u \<Longrightarrow> argmax_axis0 cv = Inr color_v \<Longrightarrow>
       loop_run solves color_u color_v (int (dim0 cl) - 1)
         \<lparr>clasification = cl, correspondence_u = cu, correspondence_v = cv,
          probabilities = softmax cl, output = []\<rparr> res \<Longrightarrow>
       engine_run solves cl cu cv res"



section \<open>The inverse lookup table\<close>

text \<open>
  \<^verbatim>\<open>
  def get_color_to_3dpoints_arrays(self, model_id):
      vertices, _ = self.model_id_to_vertices_and_triangles(model_id)
      colors = self.color_points(vertices, model_id)
      points_for_griddata = colors[:, 1:]
      values_for_griddata = vertices
      grid1, grid2 = np.mgrid[0:256, 0:256]

      def interpolate(method):
          return griddata(points=points_for_griddata, values=values_for_griddata,
                          xi=(grid1, grid2), method=method)

      interpolated = interpolate('linear')
      missing_mask = np.isnan(interpolated)
      interpolated[missing_mask] = interpolate('nearest')[missing_mask]
      return interpolated
  \<close>
  The table has the shape of the grid, 256 by 256; each missing coordinate of the linear
  interpolation is taken from the nearest-sample one.
\<close>

definition fill_missing :: "npfloat \<Rightarrow> npfloat \<Rightarrow> npfloat" where
  "fill_missing interpolated nearest = (if interpolated = NaN then nearest else interpolated)"

definition get_color_to_3dpoints_arrays ::
  "'img handler \<Rightarrow> int \<Rightarrow> py_error + fpoint3 array2" where
  "get_color_to_3dpoints_arrays self model_id =
     ebind (model_id_to_vertices_and_triangles self model_id) (\<lambda>(vs, triangles).
     ebind (color_points vs model_id) (\<lambda>colors.
       (let points_for_griddata = map (\<lambda>(m, h, r). (h, r)) colors
        in ebind (griddata self Linear points_for_griddata vs) (\<lambda>interpolated.
           ebind (griddata self Nearest points_for_griddata vs) (\<lambda>nearest.
             Inr \<lparr>rows = 256, cols = 256,
                  cells = \<lambda>i j.
                    (case (interpolated i j, nearest i j) of
                       ((lx, ly, lz), (nx, ny, nz)) \<Rightarrow>
                         (fill_missing lx nx, fill_missing ly ny, fill_missing lz nz))\<rparr>)))))"

text \<open>\<^verbatim>\<open>table[i, j]\<close> for integers \<open>i\<close> and \<open>j\<close>.\<close>

definition table_lookup :: "'a array2 \<Rightarrow> int \<Rightarrow> int \<Rightarrow> py_error + 'a" where
  "table_lookup table i j =
     ebind (wrap_index (rows table) i) (\<lambda>a.
     ebind (wrap_index (cols table) j) (\<lambda>b. Inr (cells table a b)))"

section \<open>The single-instance pose solver\<close>

text \<open>An integer numpy array of one or of two dimensions (a list of rows).\<close>

datatype ndarray = A1 "int list" | A2 "int list list"

text \<open>
  \<^verbatim>\<open>np.hstack([a, b])\<close>: one-dimensional arrays are joined end to end, two-dimensional ones
  row by row; arrays of different dimensions, or with different numbers of rows, raise
  \<^verbatim>\<open>ValueError\<close>.
\<close>

fun hstack :: "ndarray \<Rightarrow> ndarray \<Rightarrow> py_error + ndarray" where
  "hstack (A1 a) (A1 b) = Inr (A1 (a @ b))"
| "hstack (A2 a) (A2 b) =
     (if length a = length b then Inr (A2 (map (\<lambda>(x, y). x @ y) (zip a b)))
      else Inl ValueError)"
| "hstack (A2 a) (A1 b) = Inl ValueError"
| "hstack (A1 a) (A2 b) = Inl ValueError"

text \<open>\<^verbatim>\<open>a.flatten()\<close>, in row-major order.\<close>

definition flatten2 :: "'a array2 \<Rightarrow> 'a list" where
  "flatten2 a = map (\<lambda>(h, w). cells a h w) (positions (rows a) (cols a))"

definition flatten3 :: "'a tensor3 \<Rightarrow> 'a list" where
  "flatten3 t =
     concat (map (\<lambda>c. map (\<lambda>(h, w). elems t c h w) (positions (dim1 t) (dim2 t)))
               [0..<dim0 t])"

text \<open>
  \<^verbatim>\<open>xs[bs]\<close> for a one-dimensional array and a boolean array: numpy raises
  \<^verbatim>\<open>IndexError\<close> when the lengths differ.
\<close>

definition boolean_index :: "'a list \<Rightarrow> bool list \<Rightarrow> py_error + 'a list" where
  "boolean_index xs bs =
     (if length xs \<noteq> length bs then Inl IndexError
      else Inr (map fst (filter snd (zip xs bs))))"

text \<open>\<^verbatim>\<open>data[:, j]\<close>: a column of a two-dimensional array.\<close>

fun column_of :: "ndarray \<Rightarrow> nat \<Rightarrow> py_error + int list" where
  "column_of (A1 a) j = Inl IndexError"
| "column_of (A2 rs) j =
     (if list_all (\<lambda>r. j < length r) rs then Inr (map (\<lambda>r. r ! j) rs) else Inl IndexError)"

text \<open>\<^verbatim>\<open>data[:, :2]\<close>: a slice never raises on a two-dimensional array.\<close>

fun first_two_columns :: "ndarray \<Rightarrow> py_error + int list list" where
  "first_two_columns (A1 a) = Inl IndexError"
| "first_two_columns (A2 rs) = Inr (map (take 2) rs)"

text \<open>
  \<^verbatim>\<open>inliers.flatten()\<close> and then \<^verbatim>\<open>image_points[...]\<close>: \<^verbatim>\<open>None\<close> has no attribute
  \<^verbatim>\<open>flatten\<close>; an index outside the rows raises \<^verbatim>\<open>IndexError\<close>.
\<close>

definition take_rows :: "'a list \<Rightarrow> int list option \<Rightarrow> py_error + 'a list" where
  "take_rows image_points inliers =
     (case inliers of
        None \<Rightarrow> Inl AttributeError
      | Some idx \<Rightarrow> map_err (np_index image_points) idx)"

text \<open>\<^verbatim>\<open>t.T\<close> where \<open>t\<close> is a Python tuple: a tuple has no attribute \<^verbatim>\<open>T\<close>.\<close>

definition tuple_T :: "'a \<times> 'b \<Rightarrow> py_error + real list list" where
  "tuple_T t = Inl AttributeError"

text \<open>
  \<^verbatim>\<open>
  def pnp_ransac_single_instance(self, data, model_id):
      color_to_3dpoints = self.get_color_to_3dpoints_arrays(model_id)
      object_points = color_to_3dpoints[data[:, 2].astype(int), data[:, 3].astype(int)]
      image_points  = data[:, :2]
      converged, rodrigues_rotation_vector, translation_vector, inliers = \
          cv2.solvePnPRansac(object_points, image_points, self.camera_matrix, None)
      return converged, image_points[inliers.flatten()], translation_vector.T, \
          cv2.Rodrigues(rodrigues_rotation_vector.T).T
  \<close>
  The four values of the \<^verbatim>\<open>return\<close> are computed from left to right.
\<close>

definition pnp_ransac_single_instance ::
  "'img handler \<Rightarrow> ndarray \<Rightarrow> int \<Rightarrow> py_error + solved" where
  "pnp_ransac_single_instance self data model_id =
     ebind (get_color_to_3dpoints_arrays self model_id) (\<lambda>color_to_3dpoints.
     ebind (column_of data 2) (\<lambda>heights.
     ebind (column_of data 3) (\<lambda>angles.
     ebind (map_err (\<lambda>(h, r). table_lookup color_to_3dpoints h r) (zip heights angles))
       (\<lambda>object_points.
     ebind (first_two_columns data) (\<lambda>image_points.
     ebind (solvePnPRansac self object_points image_points)
       (\<lambda>(converged, rodrigues_rotation_vector, translation_vector, inliers).
     ebind (take_rows image_points inliers) (\<lambda>inlier_points.
     ebind (tuple_T (Rodrigues self (transpose rodrigues_rotation_vector)))
       (\<lambda>rotation_matrix.
          Inr (converged, map (\<lambda>r. (r ! 0, r ! 1)) inlier_points,
               transpose translation_vector, rotation_matrix)))))))))"

text \<open>
  \<^verbatim>\<open>
  def pnp_ransac_single_instance2(self, color_u, color_v, mask, model_id):
      points2d = np.argwhere(mask)
      colors = np.hstack([
          color_u.flatten()[mask.flatten()],
          color_v.flatten()[mask.flatten()],
      ])
      data = np.hstack([points2d, colors])
      return self.pnp_ransac_single_instance(data, model_id)
  \<close>
  The argument \<open>msk\<close> is \<^verbatim>\<open>mask\<close>: the engine passes a three-dimensional array.
\<close>

definition pnp_ransac_single_instance2 :: "'img handler \<Rightarrow> single_solver" where
  "pnp_ransac_single_instance2 self color_u color_v msk model_id =
     (let points2d = A2 (map (\<lambda>(c, h, w). [int c, int h, int w]) (argwhere msk))
      in ebind (boolean_index (map int (flatten2 color_u)) (flatten3 msk)) (\<lambda>us.
         ebind (boolean_index (map int (flatten2 color_v)) (flatten3 msk)) (\<lambda>vs.
         ebind (hstack (A1 us) (A1 vs)) (\<lambda>colors.
         ebind (hstack points2d colors) (\<lambda>data.
           pnp_ransac_single_instance self data (int model_id))))))"

section \<open>The round trip through the lookup table\<close>



definition fin_point :: "point3 \<Rightarrow> fpoint3" where
  "fin_point v = (case v of (x, y, z) \<Rightarrow> (Fin x, Fin y, Fin z))"


section \<open>The handler of the LINEMOD models\<close>

text \<open>
  \<^verbatim>\<open>DPOD/datasets/linemod/models_handler.py\<close> has a second class \<^verbatim>\<open>ModelsHandler\<close>, with
  its own codec, lookup table and renderer. What it reaches outside the repository's
  code: the models read from the \<^verbatim>\<open>.obj\<close> files (vertices, and faces with indices already
  counted from 0), by name; \<^verbatim>\<open>cv2.projectPoints\<close>, \<^verbatim>\<open>cv2.fillConvexPoly\<close> and
  \<^verbatim>\<open>scipy.interpolate.griddata\<close>. \<^verbatim>\<open>color_resolution\<close> is 255 unless the caller says
  otherwise; it is a natural number here.
\<close>

record 'img linemod_handler =
  obj_models :: "string \<rightharpoonup> point3 list \<times> triangle list"
  color_resolution :: nat
  lm_projectPoints :: "point3 list \<Rightarrow> (real \<times> real) list"
  lm_fillConvexPoly :: "'img \<Rightarrow> (int \<times> int) list \<Rightarrow> int list \<Rightarrow> 'img"
  lm_griddata :: "interpolation \<Rightarrow> (int \<times> int) list \<Rightarrow> point3 list
                    \<Rightarrow> py_error + (nat \<Rightarrow> nat \<Rightarrow> fpoint3)"

text \<open>
  \<^verbatim>\<open>
  def get_vertices(self, model_name):
      return read_obj_file(self._model_name_to_model_file_path[model_name])[0]
  def get_faces(self, model_name):
      return read_obj_file(self._model_name_to_model_file_path[model_name])[1]
  def get_faces_midpoints(self, model_name):
      vertices = self.get_vertices(model_name)
      faces = self.get_faces(model_name)
      faces_mid_points = (vertices[faces[:, 0]] + vertices[faces[:, 1]]
                          + vertices[faces[:, 2]]) / 3
      return faces_mid_points
  \<close>
\<close>

definition get_vertices :: "'img linemod_handler \<Rightarrow> string \<Rightarrow> py_error + point3 list" where
  "get_vertices self model_name =
     (case obj_models self model_name of None \<Rightarrow> Inl KeyError | Some (vs, fs) \<Rightarrow> Inr vs)"

definition get_faces :: "'img linemod_handler \<Rightarrow> string \<Rightarrow> py_error + triangle list" where
  "get_faces self model_name =
     (case obj_models self model_name of None \<Rightarrow> Inl KeyError | Some (vs, fs) \<Rightarrow> Inr fs)"

definition get_faces_midpoints :: "'img linemod_handler \<Rightarrow> string \<Rightarrow> py_error + point3 list" where
  "get_faces_midpoints self model_name =
     ebind (get_vertices self model_name) (\<lambda>vs.
     ebind (get_faces self model_name) (\<lambda>fs. faces_mid_points vs fs))"

text \<open>
  \<^verbatim>\<open>
  def color_uv(self, points):
      max_height = points[:, 1].max()
      min_height = points[:, 1].min()
      height_colors = (points[:, 1] - min_height) / (max_height - min_height)
      angle_colors  = np.arctan2(*points[:, [0, 2]].T)
      angle_colors  = (angle_colors + np.pi) / (2*np.pi)
      return np.stack([height_colors, angle_colors], axis=-1)
  \<close>
  A file with no vertex gives a one-dimensional array, on which \<^verbatim>\<open>points[:, 1]\<close> raises
  \<^verbatim>\<open>IndexError\<close>.
\<close>

definition color_uv :: "point3 list \<Rightarrow> py_error + (npfloat \<times> real) list" where
  "color_uv points =
     (if points = [] then Inl IndexError
      else
        (let heights = map (\<lambda>(x, y, z). y) points;
             max_height = amax heights;
             min_height = amin heights
         in Inr (map (\<lambda>(x, y, z).
                   (np_div (y - min_height) (max_height - min_height),
                    (arctan2 x z + pi) / (2 * pi)))
                 points)))"

text \<open>\<^verbatim>\<open>(color * color_resolution).astype(int)\<close> for one colour.\<close>

fun scale :: "nat \<Rightarrow> npfloat \<Rightarrow> npfloat" where
  "scale n (Fin r) = Fin (r * real n)"
| "scale n PosInf = (if n = 0 then NaN else PosInf)"
| "scale n NegInf = (if n = 0 then NaN else NegInf)"
| "scale n NaN = NaN"

definition uv_code :: "nat \<Rightarrow> npfloat \<times> real \<Rightarrow> int \<times> int" where
  "uv_code n c = (case c of (h, a) \<Rightarrow> (astype_int (scale n h), trunc (a * real n)))"

text \<open>
  \<^verbatim>\<open>
  def get_color_to_3dpoints_arrays(self, model_name):
      vertices = self.get_vertices(model_name)
      colors = (self.color_uv(vertices)*self.color_resolution).astype(int)
      points_for_griddata = colors
      values_for_griddata = vertices
      grid1, grid2 = np.mgrid[0:self.color_resolution, 0:self.color_resolution]
      ... (the two interpolations, as in the other handler)
      return interpolated
  \<close>
  The table has the shape of the grid: \<^verbatim>\<open>color_resolution\<close> rows and columns.
\<close>

definition get_color_to_3dpoints_arrays_linemod ::
  "'img linemod_handler \<Rightarrow> string \<Rightarrow> py_error + fpoint3 array2" where
  "get_color_to_3dpoints_arrays_linemod self model_name =
     ebind (get_vertices self model_name) (\<lambda>vs.
     ebind (color_uv vs) (\<lambda>uv.
       (let colors = map (uv_code (color_resolution self)) uv
        in ebind (lm_griddata self Linear colors vs) (\<lambda>interpolated.
           ebind (lm_griddata self Nearest colors vs) (\<lambda>nearest.
             Inr \<lparr>rows = color_resolution self, cols = color_resolution self,
                  cells = \<lambda>i j.
                    (case (interpolated i j, nearest i j) of
                       ((lx, ly, lz), (nx, ny, nz)) \<Rightarrow>
                         (fill_missing lx nx, fill_missing ly ny, fill_missing lz nz))\<rparr>)))))"

text \<open>Decoding the table of a LINEMOD model at the colour code of its \<open>i\<close>-th vertex.\<close>

definition round_trip_linemod ::
  "'img linemod_handler \<Rightarrow> string \<Rightarrow> nat \<Rightarrow> py_error + fpoint3" where
  "round_trip_linemod self model_name i =
     ebind (get_color_to_3dpoints_arrays_linemod self model_name) (\<lambda>table.
     ebind (get_vertices self model_name) (\<lambda>vs.
     ebind (color_uv vs) (\<lambda>uv.
       (case uv_code (color_resolution self) (uv ! i) of (h, a) \<Rightarrow> table_lookup table h a))))"

text \<open>
  \<^verbatim>\<open>
  def transform_points(points, rotation_matrix, translation_vector):
      points = points@rotation_matrix.T + translation_vector
      points = points@np.diag([1, -1, -1])
      return points
  \<close>
\<close>

definition transform_points_linemod :: "point3 list \<Rightarrow> mat3 \<Rightarrow> point3 \<Rightarrow> point3 list" where
  "transform_points_linemod points rotation_matrix translation_vector =
     map (\<lambda>(x, y, z).
            (case rotation_matrix of ((r00, r01, r02), (r10, r11, r12), (r20, r21, r22)) \<Rightarrow>
             case translation_vector of (tx, ty, tz) \<Rightarrow>
               (x * r00 + y * r01 + z * r02 + tx,
                - (x * r10 + y * r11 + z * r12 + ty),
                - (x * r20 + y * r21 + z * r22 + tz))))
         points"

text \<open>
  \<^verbatim>\<open>
  def get_faces_uv_colors(self, model_name):
      vertices = self.get_vertices(model_name)
      faces = self.get_faces(model_name)
      faces_mid_points = self.get_faces_midpoints(model_name)
      max_height = vertices[:, 1].max()
      min_height = vertices[:, 1].min()
      height_colors = (faces_mid_points[:, 1] - min_height) / (max_height - min_height)
      angle_colors  = np.arctan2(*faces_mid_points[:, [0, 2]].T)
      angle_colors  = (angle_colors + np.pi) / (2*np.pi)
      return np.stack([height_colors, angle_colors], axis=-1)
  \<close>
\<close>

definition get_faces_uv_colors ::
  "'img linemod_handler \<Rightarrow> string \<Rightarrow> py_error + (npfloat \<times> real) list" where
  "get_faces_uv_colors self model_name =
     ebind (get_vertices self model_name) (\<lambda>vs.
     ebind (get_faces self model_name) (\<lambda>fs.
     ebind (get_faces_midpoints self model_name) (\<lambda>mid_points.
       (if vs = [] then Inl IndexError
        else
          (let heights = map (\<lambda>(x, y, z). y) vs;
               max_height = amax heights;
               min_height = amin heights
           in Inr (map (\<lambda>(x, y, z).
                     (np_div (y - min_height) (max_height - min_height),
                      (arctan2 x z + pi) / (2 * pi)))
                   mid_points))))))"

text \<open>
  \<^verbatim>\<open>
  def draw_poly(image, vertices, color):
      cv2.fillConvexPoly(image, vertices.astype(int), color.tolist())
      return image

  for vertices, color in zip(faces, colors):
      draw_poly(image, np.stack([points2d_on_image[v] for v in vertices]),
                (self.color_resolution*color).astype(int))
  \<close>
  The loop of \<^verbatim>\<open>draw_color_mask\<close> over the sorted faces and their colours.
\<close>

fun draw_polys ::
  "'img linemod_handler \<Rightarrow> 'img \<Rightarrow> (real \<times> real) list \<Rightarrow> triangle list
     \<Rightarrow> (npfloat \<times> real) list \<Rightarrow> py_error + 'img" where
  "draw_polys self img vs (t # fs) (c # colors) =
     (case triangle_coord vs t of
        Inl e \<Rightarrow> Inl e
      | Inr coord \<Rightarrow>
          (case uv_code (color_resolution self) c of
             (h, a) \<Rightarrow> draw_polys self (lm_fillConvexPoly self img coord [h, a]) vs fs colors))"
| "draw_polys self img vs fs colors = Inr img"

text \<open>
  \<^verbatim>\<open>
  def draw_color_mask(self, image, model_name, rotation_matrix, center):
      translation_vector = center
      points3d_on_model = self.get_vertices(model_name)
      points3d_in_reality = transform_points(points3d_on_model, rotation_matrix,
                                             translation_vector)
      points2d_on_image = project_points(points3d_in_reality, self.camera_matrix)
      faces = self.get_faces(model_name)
      faces_mid_points3d_in_reality = (
          points3d_in_reality[faces[:, 0]] +
          points3d_in_reality[faces[:, 1]] +
          points3d_in_reality[faces[:, 2]]
      ) / 3
      face_ordering = np.argsort(-faces_mid_points3d_in_reality[:, 2])
      faces = faces[face_ordering]
      colors = self.get_faces_uv_colors(model_name)[face_ordering]
      for vertices, color in zip(faces, colors):
          draw_poly(...)
      return image
  \<close>
  With no vertex, \<^verbatim>\<open>points@rotation_matrix.T\<close> multiplies an array of length 0 with a
  matrix of three rows, which raises \<^verbatim>\<open>ValueError\<close>.
\<close>

definition draw_color_mask ::
  "'img linemod_handler \<Rightarrow> 'img \<Rightarrow> string \<Rightarrow> mat3 \<Rightarrow> point3 \<Rightarrow> py_error + 'img" where
  "draw_color_mask self img model_name rotation_matrix center =
     ebind (get_vertices self model_name) (\<lambda>points3d_on_model.
       if points3d_on_model = [] then Inl ValueError
       else
       (let points3d_in_reality =
              transform_points_linemod points3d_on_model rotation_matrix center;
            points2d_on_image = lm_projectPoints self points3d_in_reality
        in ebind (get_faces self model_name) (\<lambda>fs.
           ebind (faces_mid_points points3d_in_reality fs) (\<lambda>faces_mid_points3d_in_reality.
             (let face_ordering =
                    argsort (map (\<lambda>(x, y, z). - z) faces_mid_points3d_in_reality)
              in ebind (get_faces_uv_colors self model_name) (\<lambda>colors.
                   draw_polys self img points2d_on_image
                     (map (\<lambda>i. fs ! i) face_ordering)
                     (map (\<lambda>i. colors ! i) face_ordering)))))))"

text \<open>The polygons of \<open>draw_polys\<close>, painted one after the other.\<close>

definition fill_all_linemod ::
  "'img linemod_handler \<Rightarrow> 'img \<Rightarrow> ((int \<times> int) list \<times> (npfloat \<times> real)) list \<Rightarrow> 'img" where
  "fill_all_linemod self img calls =
     foldl (\<lambda>im (coord, c).
              (case uv_code (color_resolution self) c of
                 (h, a) \<Rightarrow> lm_fillConvexPoly self im coord [h, a]))
           img calls"

section \<open>Example inputs of the renderer\<close>

text \<open>
  A handler with no models, whose libraries do nothing: the interpolation fails, the pose
  estimation never converges. The examples below replace the fields they need.
\<close>

definition blank_handler :: "'img handler" where
  "blank_handler =
     \<lparr> raw_models = Map.empty,
       car_id2name = Map.empty,
       projectPoints = map (\<lambda>(x, y, z). (x, y)),
       fillConvexPoly = (\<lambda>im coord color. im),
       griddata = (\<lambda>method points vals. Inl QhullError),
       solvePnPRansac = (\<lambda>object_points image_points. Inr (False, [], [], None)),
       Rodrigues = (\<lambda>src. ([], [])) \<rparr>"

text \<open>An image that records the polygons painted on it, in the order of the calls.\<close>

type_synonym trace = "((int \<times> int) list \<times> int list) list"


section \<open>Example inputs of the engine\<close>

text \<open>
  A classification tensor of shape \<open>(2, 1, 2)\<close>: one object class (0) and the background
  (1), over two pixels. Both pixels score highest for class 0; only the score of the
  first pixel for class 0 is the number 0.
\<close>

definition two_pixels :: "real tensor3" where
  "two_pixels =
     \<lparr>dim0 = 2, dim1 = 1, dim2 = 2, elems = \<lambda>c h w. [[[0, 5]], [[- 1, - 1]]] ! c ! h ! w\<rparr>"

definition flat_codes :: "real tensor3" where
  "flat_codes = \<lparr>dim0 = 1, dim1 = 1, dim2 = 2, elems = \<lambda>c h w. 0\<rparr>"

text \<open>The frame of the engine on these inputs, when it enters its loop.\<close>

definition two_pixels_frame :: frame where
  "two_pixels_frame =
     \<lparr>clasification = two_pixels, correspondence_u = flat_codes,
      correspondence_v = flat_codes, probabilities = softmax two_pixels, output = []\<rparr>"




text \<open>
  A classification tensor of shape \<open>(3, 1, 2)\<close>: classes 0 and 1 and the background (2),
  over two pixels. The first pixel scores highest for class 0, with the score 0; the
  second scores highest for class 1.
\<close>

definition two_classes :: "real tensor3" where
  "two_classes =
     \<lparr>dim0 = 3, dim1 = 1, dim2 = 2,
      elems = \<lambda>c h w. [[[0, - 3]], [[- 1, 2]], [[- 2, - 2]]] ! c ! h ! w\<rparr>"



section \<open>Example inputs of the lookup table\<close>

text \<open>
  An interpolation that is exact on the samples: at the position of a sample it gives
  the value of the first sample there. Elsewhere the linear method gives \<^verbatim>\<open>nan\<close> and
  the nearest method the first value (the examples do not read those cells).
\<close>

definition first_sample ::
  "interpolation \<Rightarrow> (int \<times> int) list \<Rightarrow> point3 list \<Rightarrow> py_error + (nat \<Rightarrow> nat \<Rightarrow> fpoint3)"
  where
  "first_sample method points vals =
     (if points = [] \<or> length vals \<noteq> length points then Inl QhullError
      else Inr (\<lambda>i j.
        (case map_of (zip points vals) (int i, int j) of
           Some v \<Rightarrow> fin_point v
         | None \<Rightarrow> (case method of Linear \<Rightarrow> (NaN, NaN, NaN) | Nearest \<Rightarrow> fin_point (hd vals)))))"

text \<open>
  Model 5 with three vertices; read from its file, their heights are negated. The first
  vertex becomes \<open>(0, 0, 1)\<close>, the lowest, and the second \<open>(0, 1, 1)\<close>, the highest, right
  above it. The interpolation is a parameter.
\<close>

definition tower ::
  "(interpolation \<Rightarrow> (int \<times> int) list \<Rightarrow> point3 list \<Rightarrow> py_error + (nat \<Rightarrow> nat \<Rightarrow> fpoint3))
     \<Rightarrow> unit handler" where
  "tower g =
     blank_handler
     \<lparr> raw_models := [''tower'' \<mapsto>
          \<lparr> vertices = [(0, 0, 1), (0, - 1, 1), (1, - (1 / 2), 0)], faces = [(1, 2, 3)] \<rparr>],
       car_id2name := [5 \<mapsto> ''tower''],
       griddata := g \<rparr>"

text \<open>
  Four observations of model 5, one per row: the two coordinates of a pixel, then its
  height code and its angle code.
\<close>

definition four_observations :: ndarray where
  "four_observations = A2 [[0, 0, 0, 0], [0, 1, 128, 0], [1, 0, 0, 0], [1, 1, 128, 0]]"

text \<open>
  Two handlers for the model \<open>tower\<close> whose pose estimation finds no pose: it reports
  \<^verbatim>\<open>False\<close> and hands back no inlier array (\<^verbatim>\<open>None\<close>), or an empty one.
\<close>

definition no_pose_none :: "unit handler" where
  "no_pose_none =
     (tower first_sample)
     \<lparr> solvePnPRansac := (\<lambda>object_points image_points.
          Inr (False, [[0], [0], [0]], [[0], [0], [0]], None)) \<rparr>"

definition no_pose_empty :: "unit handler" where
  "no_pose_empty =
     (tower first_sample)
     \<lparr> solvePnPRansac := (\<lambda>object_points image_points.
          Inr (False, [[0], [0], [0]], [[0], [0], [0]], Some [])) \<rparr>"

section \<open>Example inputs of the LINEMOD handler\<close>

text \<open>
  A LINEMOD model of four vertices and two faces, at the default colour resolution, with
  an image that records the polygons painted on it.
\<close>

definition two_faces_linemod :: "trace linemod_handler" where
  "two_faces_linemod =
     \<lparr> obj_models = [''ape'' \<mapsto> ([(0, 0, 1), (0, 3, 1), (0, 0, 4), (0, 3, 4)],
                                 [(0, 1, 2), (1, 2, 3)])],
       color_resolution = 255,
       lm_projectPoints = map (\<lambda>(x, y, z). (x, y)),
       lm_fillConvexPoly = (\<lambda>im coord color. im @ [(coord, color)]),
       lm_griddata = first_sample \<rparr>"
section \<open>Properties of the arithmetic\<close>



lemma amin_in: "x \<noteq> [] \<Longrightarrow> amin x \<in> set x"
  by (induction x rule: amin.induct) (auto simp: min_def)

lemma amax_in: "x \<noteq> [] \<Longrightarrow> amax x \<in> set x"
  by (induction x rule: amax.induct) (auto simp: max_def)






section \<open>Claims about the colour codec\<close>






section \<open>Properties of the lookup table\<close>

lemma tower_model:
  "model_id_to_vertices_and_triangles (tower g) 5 =
     Inr ([(0, 0, 1), (0, 1, 1), (1, 1 / 2, 0)], [(0, 1, 2)])"
  by (simp add: model_id_to_vertices_and_triangles_def tower_def blank_handler_def)

lemma arctan2_values: "arctan2 0 1 = 0" "arctan2 1 0 = pi / 2"
  by (simp_all add: arctan2_def)

lemma tower_heights:
  "normalize_to_256 [0, 1, 1 / 2] = Inr [Fin 0, Fin 0, Fin 128]"
  by (simp add: normalize_to_256_def np_div_def fmod_def)

lemma tower_angles:
  "normalize_to_256 [0, 0, pi / 2] = Inr [Fin 0, Fin 0, Fin 0]"
proof -
  have "amin [0, 0, pi / 2] = 0" "amax [0, 0, pi / 2] = pi / 2"
    by (simp_all add: min_def max_def)
  then show ?thesis
    by (simp add: normalize_to_256_def np_div_def fmod_def)
qed

lemma tower_colors:
  "color_points [(0, 0, 1), (0, 1, 1), (1, 1 / 2, 0)] 5 = Inr [(5, 0, 0), (5, 0, 0), (5, 128, 0)]"
  by (simp add: color_points_def arctan2_values tower_heights tower_angles)







lemma fill_missing_fin [simp]: "fill_missing (Fin a) n = Fin a"
  by (simp add: fill_missing_def)






lemma tower_builds: "\<exists>table. get_color_to_3dpoints_arrays (tower first_sample) 5 = Inr table"
  by (simp add: get_color_to_3dpoints_arrays_def tower_model tower_colors ebind_def)
     (simp add: tower_def blank_handler_def first_sample_def)

lemma tower_griddata [simp]: "griddata (tower g) = g"
  by (simp add: tower_def blank_handler_def)



section \<open>Properties of the renderer\<close>

lemma argsort_mset: "mset (argsort ks) = mset [0..<length ks]"
proof -
  let ?zs = "zip ks [0..<length ks]"
  have "mset (argsort ks) = image_mset snd (mset (sort_key fst ?zs))"
    by (simp only: argsort_def mset_map)
  also have "\<dots> = image_mset snd (mset ?zs)"
    by (simp only: mset_sort)
  also have "\<dots> = mset (map snd ?zs)"
    by (simp only: mset_map)
  also have "map snd ?zs = [0..<length ks]"
    by (simp only: map_snd_zip length_upt diff_zero)
  finally show ?thesis .
qed

lemma argsort_length: "length (argsort ks) = length ks"
  by (simp add: argsort_def)

lemma zip_upt_nth: "(k, i) \<in> set (zip ks [0..<length ks]) \<Longrightarrow> k = ks ! i"
  by (auto simp: set_zip)

lemma argsort_keys:
  "map (\<lambda>i. ks ! i) (argsort ks) = map fst (sort_key fst (zip ks [0..<length ks]))"
proof -
  have "\<forall>p \<in> set (sort_key fst (zip ks [0..<length ks])). ks ! snd p = fst p"
    using zip_upt_nth[of _ _ ks] by auto
  then show ?thesis by (simp add: argsort_def)
qed

lemma argsort_sorted: "sorted (map (\<lambda>i. ks ! i) (argsort ks))"
  by (simp only: argsort_keys sorted_sort_key)

lemma argsort_in_range: "i \<in> set (argsort ks) \<Longrightarrow> i < length ks"
proof -
  assume "i \<in> set (argsort ks)"
  then have "i \<in> set_mset (mset (argsort ks))" by simp
  then have "i \<in> set [0..<length ks]" by (simp only: argsort_mset set_mset_mset)
  then show ?thesis by simp
qed

lemma argsort_neg_desc:
  "sorted_wrt (\<lambda>a b. b \<le> a) (map (\<lambda>i. ds ! i) (argsort (map (\<lambda>d. - d) ds)))"
proof -
  let ?ks = "map (\<lambda>d. - d) ds"
  have s: "sorted (map (\<lambda>i. ?ks ! i) (argsort ?ks))" by (rule argsort_sorted)
  have eq: "map (\<lambda>i. ?ks ! i) (argsort ?ks) = map (\<lambda>i. - (ds ! i)) (argsort ?ks)"
    using argsort_in_range[of _ ?ks] by (intro map_cong) auto
  have "sorted_wrt (\<lambda>a b. a \<le> b) (map (\<lambda>i. - (ds ! i)) (argsort ?ks))"
    using s unfolding eq by simp
  then show ?thesis
    by (simp add: sorted_wrt_map)
qed



lemma depth_neg: "(\<lambda>(x, y, z). - z) = (\<lambda>p. - depth p)"
  by (auto simp: depth_def)

lemma map_err_length: "map_err f xs = Inr ys \<Longrightarrow> length ys = length xs"
  by (induction xs arbitrary: ys) (auto split: sum.splits)

lemma faces_mid_points_length:
  "faces_mid_points vs ts = Inr ms \<Longrightarrow> length ms = length ts"
  by (auto simp: faces_mid_points_def map_err_length split: if_splits)









section \<open>Properties of the engine\<close>

lemma argmax_scan_mono:
  assumes "\<And>a b. (f a < f b) = (a < (b::real))"
  shows "argmax_scan (map f ys) i bi (f bv) = argmax_scan ys i bi bv"
  by (induction ys arbitrary: i bi bv) (simp_all add: assms)

lemma argmax_list_mono:
  assumes "\<And>a b. (f a < f b) = (a < (b::real))"
  shows "argmax_list (map f xs) = argmax_list xs"
  by (cases xs) (simp_all add: argmax_scan_mono[OF assms])

lemma sum_exp_pos: "xs \<noteq> [] \<Longrightarrow> 0 < (\<Sum>k\<leftarrow>xs. exp (g k :: real))"
proof (induction xs)
  case Nil
  then show ?case by simp
next
  case (Cons a xs)
  have "0 \<le> (\<Sum>k\<leftarrow>xs. exp (g k))" by (rule sum_list_nonneg) auto
  moreover have "0 < exp (g a)" by simp
  ultimately show ?case by (simp add: add_pos_nonneg)
qed

lemma column_softmax:
  "column (softmax t) h w =
     map (\<lambda>x. exp x / (\<Sum>k\<leftarrow>[0..<dim0 t]. exp (elems t k h w))) (column t h w)"
  by (simp add: column_def softmax_def)

lemma argmax_softmax:
  assumes "0 < dim0 t"
  shows "argmax_list (column (softmax t) h w) = argmax_list (column t h w)"
proof -
  let ?S = "\<Sum>k\<leftarrow>[0..<dim0 t]. exp (elems t k h w)"
  from assms have "[0..<dim0 t] \<noteq> []" by simp
  then have pos: "0 < ?S" by (rule sum_exp_pos)
  have "\<And>a b. (exp a / ?S < exp b / ?S) = (a < b)"
    using pos by (simp add: divide_less_cancel)
  then show ?thesis
    unfolding column_softmax by (rule argmax_list_mono)
qed

lemma softmax_dims [simp]:
  "dim0 (softmax t) = dim0 t" "dim1 (softmax t) = dim1 t" "dim2 (softmax t) = dim2 t"
  by (simp_all add: softmax_def)

lemma positions_1_2: "positions (Suc 0) 2 = [(0, 0), (0, Suc 0)]"
  by (simp add: positions_def upt_rec)

lemma two_pixels_columns:
  "column two_pixels 0 0 = [0, - 1]" "column two_pixels 0 1 = [5, - 1]"
  by (simp_all add: column_def two_pixels_def upt_rec)

lemma argmax_axis0_cells:
  assumes "argmax_axis0 t = Inr mpc"
  shows "cells mpc h w = argmax_list (column t h w)" "rows mpc = dim1 t" "cols mpc = dim2 t"
    and "0 < dim0 t"
  using assms by (auto simp: argmax_axis0_def split: if_splits)

lemma two_pixels_dims [simp]:
  "dim0 two_pixels = 2" "dim1 two_pixels = 1" "dim2 two_pixels = 2"
  by (simp_all add: two_pixels_def)

lemma two_pixels_argmax:
  assumes "argmax_axis0 (softmax two_pixels) = Inr mpc"
  shows "cells mpc 0 0 = 0" "cells mpc 0 1 = 0" "rows mpc = 1" "cols mpc = 2"
proof -
  have c: "cells mpc h w = argmax_list (column two_pixels h w)" for h w
    using argmax_axis0_cells(1)[OF assms] by (simp add: argmax_softmax)
  show "cells mpc 0 0 = 0" by (simp only: c two_pixels_columns) simp
  show "cells mpc 0 1 = 0" by (simp only: c two_pixels_columns) simp
  show "rows mpc = 1" "cols mpc = 2"
    using argmax_axis0_cells(2,3)[OF assms] by simp_all
qed

lemma mode_00: "mode_item [0, 0] = Inr 0" "mode_item [0] = Inr 0"
  by (simp_all add: mode_item_def)


lemma two_pixels_select:
  assumes "argmax_axis0 (softmax two_pixels) = Inr mpc"
  shows "select_not_equal mpc 1 = [0, 0]"
  using two_pixels_argmax[OF assms]
  by (simp add: select_not_equal_def positions_1_2)

lemma two_pixels_argmax_ok: "\<exists>mpc. argmax_axis0 (softmax two_pixels) = Inr mpc"
  by (simp add: argmax_axis0_def)

lemma two_pixels_solver_input:
  "solver_input two_pixels_frame 1 = Inr (equals_scalar two_pixels 0, 0)"
proof -
  obtain mpc where m: "argmax_axis0 (softmax two_pixels) = Inr mpc"
    using two_pixels_argmax_ok by blast
  show ?thesis
    by (simp add: solver_input_def two_pixels_frame_def m ebind_def
        two_pixels_select[OF m] mode_00)
qed

lemma two_pixels_mask: "argwhere (equals_scalar two_pixels 0) = [(0, 0, 0)]"
  by (simp add: argwhere_def equals_scalar_def positions_1_2 two_pixels_def upt_rec)

text \<open>
  C1 says that the pixels handed to the solver are exactly the unassigned pixels whose
  most likely class is the most frequent class. On \<open>two_pixels\<close> both pixels have class
  0 as their most likely class, and class 0 is the most frequent class; the mask that the
  first iteration hands to the solver holds the single index \<open>(0, 0, 0)\<close>, that of the one
  score equal to the number 0: the second pixel is left out.
\<close>

theorem solver_mask_is_not_the_most_likely_class:
  "\<exists>mpc msk.
     argmax_axis0 (probabilities two_pixels_frame) = Inr mpc \<and>
     spec_selected_pixels mpc 0 = [(0, 0), (0, 1)] \<and>
     solver_input two_pixels_frame 1 = Inr (msk, 0) \<and>
     argwhere msk = [(0, 0, 0)]"
proof -
  obtain mpc where m: "argmax_axis0 (softmax two_pixels) = Inr mpc"
    using two_pixels_argmax_ok by blast
  have "spec_selected_pixels mpc 0 = [(0, 0), (0, 1)]"
    using two_pixels_argmax[OF m] by (simp add: spec_selected_pixels_def positions_1_2)
  with m two_pixels_solver_input two_pixels_mask show ?thesis
    by (simp add: two_pixels_frame_def)
qed








lemma recovery_loop_frame:
  "clasification (snd (recovery_loop n solve cu cv bg s)) = clasification s \<and>
   correspondence_u (snd (recovery_loop n solve cu cv bg s)) = correspondence_u s \<and>
   correspondence_v (snd (recovery_loop n solve cu cv bg s)) = correspondence_v s"
proof (induction n arbitrary: s)
  case 0
  then show ?case by simp
next
  case (Suc n)
  show ?case
    by (simp add: Suc.IH split: sum.split prod.split)
qed

text \<open>
  C9. However a call of the engine ends (it returns, it raises, or it is still running
  after any number of iterations), its three arguments are what they were: the loop
  writes to \<^verbatim>\<open>probabilities\<close> and \<^verbatim>\<open>output\<close> only.
\<close>

theorem engine_leaves_its_inputs:
  "clasification (snd (pnp_ransac_multiple_instances fuel solve cl cu cv)) = cl \<and>
   correspondence_u (snd (pnp_ransac_multiple_instances fuel solve cl cu cv)) = cu \<and>
   correspondence_v (snd (pnp_ransac_multiple_instances fuel solve cl cu cv)) = cv"
  by (simp add: pnp_ransac_multiple_instances_def Let_def recovery_loop_frame
      split: sum.split)

lemma recovery_loop_more_fuel:
  "recovery_loop n solve cu cv bg s = (r, s') \<Longrightarrow> r \<noteq> Running \<Longrightarrow>
   recovery_loop (n + k) solve cu cv bg s = (r, s')"
proof (induction n arbitrary: s)
  case 0
  then show ?case by simp
next
  case (Suc n)
  then show ?case
    by (auto split: sum.splits prod.splits if_splits)
qed

lemma engine_more_fuel:
  "pnp_ransac_multiple_instances n solve cl cu cv = (r, s') \<Longrightarrow> r \<noteq> Running \<Longrightarrow>
   pnp_ransac_multiple_instances (n + k) solve cl cu cv = (r, s')"
  by (auto simp: pnp_ransac_multiple_instances_def Let_def recovery_loop_more_fuel
      split: sum.splits)

lemma engine_fuel_independent:
  assumes "pnp_ransac_multiple_instances n1 solve cl cu cv = (r1, s1)" and "r1 \<noteq> Running"
    and "pnp_ransac_multiple_instances n2 solve cl cu cv = (r2, s2)" and "r2 \<noteq> Running"
  shows "r1 = r2 \<and> s1 = s2"
proof (cases "n1 \<le> n2")
  case True
  then obtain k where "n2 = n1 + k" using le_Suc_ex by blast
  with engine_more_fuel[OF assms(1,2), of k] assms(3) show ?thesis by simp
next
  case False
  then obtain k where "n1 = n2 + k" using le_Suc_ex nat_le_linear by blast
  with engine_more_fuel[OF assms(3,4), of k] assms(1) show ?thesis by simp
qed

lemma stops_on_non_convergence:
  assumes "solver_input s bg = Inr (m, k)" and "solve cu cv m k = Inr (False, inl, t, r)"
  shows "recovery_loop (Suc n) solve cu cv bg s = (Returned (output s), s)"
  using assms by simp

lemma column_treat:
  assumes "treat_as_background p inl = Inr q"
  shows "dim0 q = dim0 p" "dim1 q = dim1 p" "dim2 q = dim2 p"
  using assms by (auto simp: treat_as_background_def ebind_def split: sum.splits)

lemma two_classes_dims [simp]:
  "dim0 two_classes = 3" "dim1 two_classes = 1" "dim2 two_classes = 2"
  by (simp_all add: two_classes_def)
















section \<open>Properties of the single-instance solver\<close>

lemma single_instance_never_returns:
  "isl (pnp_ransac_single_instance self data model_id)"
  by (auto simp: pnp_ransac_single_instance_def ebind_def tuple_T_def
      split: sum.splits prod.splits)

lemma hstack_points_colors: "hstack (A2 ps) (A1 cs) = Inl ValueError"
  by simp

lemma single_instance2_never_returns:
  "isl (pnp_ransac_single_instance2 self color_u color_v msk model_id)"
  by (auto simp: pnp_ransac_single_instance2_def Let_def ebind_def split: sum.splits)

lemma own_solver_raises:
  "\<exists>e. pnp_ransac_single_instance2 self color_u color_v msk model_id = Inl e"
  using single_instance2_never_returns[of self color_u color_v msk model_id]
  by (cases "pnp_ransac_single_instance2 self color_u color_v msk model_id") simp_all

lemma own_solver_loop:
  "\<exists>e. fst (recovery_loop (Suc n) (pnp_ransac_single_instance2 self) a b bg s) = Raised e"
proof (cases "solver_input s bg")
  case (Inl e)
  then show ?thesis by simp
next
  case (Inr p)
  obtain m k where p: "p = (m, k)" by (cases p)
  obtain e where "pnp_ransac_single_instance2 self a b m k = Inl e"
    using own_solver_raises by blast
  with Inr p show ?thesis by simp
qed

lemma engine_with_own_solver:
  "\<exists>e. fst (pnp_ransac_multiple_instances (Suc n) (pnp_ransac_single_instance2 self) cl cu cv)
         = Raised e"
proof (cases "argmax_axis0 cu")
  case (Inl e)
  then show ?thesis by (simp add: pnp_ransac_multiple_instances_def)
next
  case u: (Inr color_u)
  show ?thesis
  proof (cases "argmax_axis0 cv")
    case (Inl e)
    with u show ?thesis by (simp add: pnp_ransac_multiple_instances_def)
  next
    case (Inr color_v)
    with u own_solver_loop[of n self color_u color_v] show ?thesis
      by (simp add: pnp_ransac_multiple_instances_def Let_def del: recovery_loop.simps)
  qed
qed

lemma built_table_shape:
  "get_color_to_3dpoints_arrays self model_id = Inr table \<Longrightarrow>
   rows table = 256 \<and> cols table = 256"
  by (auto simp: get_color_to_3dpoints_arrays_def ebind_def Let_def split: sum.splits)

lemma table_lookup_ok:
  "rows table = 256 \<Longrightarrow> cols table = 256 \<Longrightarrow> 0 \<le> i \<Longrightarrow> i < 256 \<Longrightarrow> 0 \<le> j \<Longrightarrow> j < 256 \<Longrightarrow>
   table_lookup table i j = Inr (cells table (nat i) (nat j))"
  by (simp add: table_lookup_def wrap_index_def ebind_def)

lemma table_ignores_the_pose_estimation:
  "get_color_to_3dpoints_arrays (self\<lparr>solvePnPRansac := f\<rparr>) model_id =
     get_color_to_3dpoints_arrays self model_id"
  by (simp add: get_color_to_3dpoints_arrays_def model_id_to_vertices_and_triangles_def
      cong: option.case_cong)

lemma no_pose_raises:
  assumes "solvePnPRansac self = (\<lambda>object_points image_points. Inr (False, r, t, inliers))"
    and "inliers = None \<or> inliers = Some []"
    and "get_color_to_3dpoints_arrays self 5 = Inr table"
  shows "pnp_ransac_single_instance self four_observations 5 = Inl AttributeError"
proof -
  note sh = built_table_shape[OF assms(3)]
  from assms(2) show ?thesis
    by (auto simp: pnp_ransac_single_instance_def assms(1,3) ebind_def table_lookup_ok sh
        take_rows_def tuple_T_def four_observations_def)
qed

text \<open>
  C2 says that the single-instance solver, when the pose estimation finds no pose, returns
  normally with \<^verbatim>\<open>converged = False\<close>. On four observations of model 5, with a pose
  estimation that reports no convergence, \<^verbatim>\<open>pnp_ransac_single_instance\<close> raises
  \<^verbatim>\<open>AttributeError\<close> instead: when the estimation hands back \<^verbatim>\<open>None\<close> for the
  inliers, and when it hands back an empty array too. By \<open>single_instance_never_returns\<close>
  the function returns normally on no input at all.
\<close>

theorem non_convergence_raises:
  "pnp_ransac_single_instance no_pose_none four_observations 5 = Inl AttributeError \<and>
   pnp_ransac_single_instance no_pose_empty four_observations 5 = Inl AttributeError"
proof -
  obtain table where b: "get_color_to_3dpoints_arrays (tower first_sample) 5 = Inr table"
    using tower_builds by blast
  have "get_color_to_3dpoints_arrays no_pose_none 5 = Inr table"
    "get_color_to_3dpoints_arrays no_pose_empty 5 = Inr table"
    by (simp_all add: no_pose_none_def no_pose_empty_def table_ignores_the_pose_estimation b)
  then show ?thesis
    by (simp add: no_pose_raises no_pose_none_def no_pose_empty_def)
qed

lemma np_index_member: "np_index xs i = Inr x \<Longrightarrow> x \<in> set xs"
  by (auto simp: np_index_def Let_def split: if_splits)

lemma map_err_members:
  "map_err f is = Inr ys \<Longrightarrow> (\<And>i y. f i = Inr y \<Longrightarrow> y \<in> A) \<Longrightarrow> set ys \<subseteq> A"
  by (induction "is" arbitrary: ys) (auto split: sum.splits)

lemma take_rows_subset:
  "take_rows image_points inliers = Inr rs \<Longrightarrow> set rs \<subseteq> set image_points"
  by (auto simp: take_rows_def split: option.splits
      dest!: map_err_members[where A = "set image_points"] intro: np_index_member)


section \<open>Properties of the LINEMOD handler\<close>

lemma draw_polys_fold:
  "draw_polys self img vs ts cs = Inr out \<Longrightarrow> length ts = length cs \<Longrightarrow>
   \<exists>coords. map_err (triangle_coord vs) ts = Inr coords \<and> length coords = length ts \<and>
     out = fill_all_linemod self img (zip coords cs)"
proof (induction ts arbitrary: img cs)
  case Nil
  then show ?case by (simp add: fill_all_linemod_def)
next
  case (Cons t ts)
  from Cons.prems(2) obtain c cs' where cs: "cs = c # cs'" by (cases cs) auto
  from Cons.prems(1) cs obtain coord where k: "triangle_coord vs t = Inr coord"
    by (auto split: sum.splits)
  obtain h a where u: "uv_code (color_resolution self) c = (h, a)" by force
  from Cons.prems(1) cs k u
  have "draw_polys self (lm_fillConvexPoly self img coord [h, a]) vs ts cs' = Inr out"
    by simp
  from Cons.IH[OF this] Cons.prems(2) cs obtain coords where
    "map_err (triangle_coord vs) ts = Inr coords" "length coords = length ts"
    "out = fill_all_linemod self (lm_fillConvexPoly self img coord [h, a]) (zip coords cs')"
    by auto
  then show ?case using k cs u by (simp add: fill_all_linemod_def)
qed

text \<open>
  The renderer of the LINEMOD handler paints like \<^verbatim>\<open>draw_model\<close>: when
  \<^verbatim>\<open>draw_color_mask\<close> returns, the image is the result of filling the projected
  triangles of all the faces, each once, in an order in which the depth of the mid-points
  of the faces never increases.
\<close>

lemma draw_color_mask_paints_far_to_near:
  assumes "draw_color_mask self img model_name rotation_matrix center = Inr out"
  shows "\<exists>vs fs mids ord colors coords.
           get_vertices self model_name = Inr vs \<and>
           get_faces self model_name = Inr fs \<and>
           faces_mid_points (transform_points_linemod vs rotation_matrix center) fs
             = Inr mids \<and>
           mset ord = mset [0..<length fs] \<and>
           sorted_wrt (\<lambda>a b. b \<le> a) (map (\<lambda>i. depth (mids ! i)) ord) \<and>
           get_faces_uv_colors self model_name = Inr colors \<and>
           map_err
             (triangle_coord
                (lm_projectPoints self (transform_points_linemod vs rotation_matrix center)))
             (map (\<lambda>i. fs ! i) ord) = Inr coords \<and>
           out = fill_all_linemod self img (zip coords (map (\<lambda>i. colors ! i) ord))"
proof -
  from assms obtain vs where v: "get_vertices self model_name = Inr vs"
    by (auto simp: draw_color_mask_def ebind_def split: sum.splits)
  from assms v have ne: "vs \<noteq> []"
    by (auto simp: draw_color_mask_def ebind_def)
  let ?p3 = "transform_points_linemod vs rotation_matrix center"
  from assms v ne obtain fs where f: "get_faces self model_name = Inr fs"
    by (auto simp: draw_color_mask_def ebind_def Let_def split: sum.splits)
  from assms v ne f obtain mids where m: "faces_mid_points ?p3 fs = Inr mids"
    by (auto simp: draw_color_mask_def ebind_def Let_def split: sum.splits)
  let ?ord = "argsort (map (\<lambda>p. - depth p) mids)"
  from assms v ne f m obtain colors where c: "get_faces_uv_colors self model_name = Inr colors"
    by (auto simp: draw_color_mask_def ebind_def Let_def split: sum.splits)
  from assms v ne f m c
  have d: "draw_polys self img (lm_projectPoints self ?p3) (map (\<lambda>i. fs ! i) ?ord)
             (map (\<lambda>i. colors ! i) ?ord) = Inr out"
    by (simp add: draw_color_mask_def ebind_def Let_def depth_neg)
  from draw_polys_fold[OF d] obtain coords where
    k: "map_err (triangle_coord (lm_projectPoints self ?p3)) (map (\<lambda>i. fs ! i) ?ord)
          = Inr coords"
       "out = fill_all_linemod self img (zip coords (map (\<lambda>i. colors ! i) ?ord))"
    by auto
  have len: "length mids = length fs" by (rule faces_mid_points_length[OF m])
  have p: "mset ?ord = mset [0..<length fs]"
    using argsort_mset[of "map (\<lambda>p. - depth p) mids"] len by simp
  have e: "map (\<lambda>i. map depth mids ! i) ?ord = map (\<lambda>i. depth (mids ! i)) ?ord"
    using argsort_in_range[of _ "map (\<lambda>p. - depth p) mids"] by (intro map_cong) auto
  have "sorted_wrt (\<lambda>a b. b \<le> a) (map (\<lambda>i. map depth mids ! i) ?ord)"
    using argsort_neg_desc[of "map depth mids"] by (simp add: comp_def)
  then have s: "sorted_wrt (\<lambda>a b. b \<le> a) (map (\<lambda>i. depth (mids ! i)) ?ord)"
    by (simp only: e)
  from v f m p s c k show ?thesis by blast
qed

text \<open>
  The table of a LINEMOD model has \<^verbatim>\<open>color_resolution\<close> rows, and a highest vertex of a
  model that is not flat has the height code \<^verbatim>\<open>color_resolution\<close>: the table has no row
  for it, and indexing the table there raises.
\<close>

lemma top_vertex_code:
  assumes "i < length vs" and "amin (map (\<lambda>(x, y, z). y) vs) < amax (map (\<lambda>(x, y, z). y) vs)"
    and "(case vs ! i of (x, y, z) \<Rightarrow> y) = amax (map (\<lambda>(x, y, z). y) vs)"
    and "color_uv vs = Inr uv"
  shows "fst (uv_code n (uv ! i)) = int n"
proof -
  from assms(1) have ne: "vs \<noteq> []" by auto
  obtain x y z where p: "vs ! i = (x, y, z)" by (cases "vs ! i") auto
  from assms(3) p have y: "y = amax (map (\<lambda>(x, y, z). y) vs)" by simp
  from assms(4) ne assms(1) p
  have "uv ! i = (np_div (y - amin (map (\<lambda>(x, y, z). y) vs))
                    (amax (map (\<lambda>(x, y, z). y) vs) - amin (map (\<lambda>(x, y, z). y) vs)),
                  (arctan2 x z + pi) / (2 * pi))"
    by (auto simp: color_uv_def Let_def)
  with y assms(2) show ?thesis
    by (simp add: uv_code_def np_div_def)
qed

lemma top_vertex_is_not_in_the_table:
  assumes "get_vertices self model_name = Inr vs" and "i < length vs"
    and "amin (map (\<lambda>(x, y, z). y) vs) < amax (map (\<lambda>(x, y, z). y) vs)"
    and "(case vs ! i of (x, y, z) \<Rightarrow> y) = amax (map (\<lambda>(x, y, z). y) vs)"
    and "get_color_to_3dpoints_arrays_linemod self model_name = Inr table"
  shows "round_trip_linemod self model_name i = Inl IndexError"
proof -
  from assms(2) have ne: "vs \<noteq> []" by auto
  then obtain uv where uv: "color_uv vs = Inr uv" by (simp add: color_uv_def Let_def)
  from assms(5) assms(1) uv have r: "rows table = color_resolution self"
    by (auto simp: get_color_to_3dpoints_arrays_linemod_def ebind_def Let_def split: sum.splits)
  obtain h a where c: "uv_code (color_resolution self) (uv ! i) = (h, a)" by force
  from top_vertex_code[OF assms(2,3,4) uv, of "color_resolution self"] c
  have h: "h = int (color_resolution self)" by simp
  have "table_lookup table h a = Inl IndexError"
    by (simp add: table_lookup_def wrap_index_def ebind_def r h)
  with assms(1,5) uv c show ?thesis
    by (simp add: round_trip_linemod_def ebind_def)
qed

text \<open>The two properties on the example model.\<close>

lemma two_faces_linemod_drawn:
  "draw_color_mask two_faces_linemod [] ''ape'' ((1, 0, 0), (0, 1, 0), (0, 0, 1)) (0, 0, 5) =
     Inr [([(0, 0), (0, -3), (0, 0)], [85, 127]),
          ([(0, -3), (0, 0), (0, -3)], [170, 127])]"
  by (simp add: draw_color_mask_def get_vertices_def get_faces_def two_faces_linemod_def
        transform_points_linemod_def faces_mid_points_def face_mid_point_def np_index_def
        ebind_def argsort_def upt_rec get_faces_uv_colors_def get_faces_midpoints_def Let_def
        triangle_coord_def trunc_def uv_code_def np_div_def arctan2_def)

lemma two_faces_linemod_top_vertex:
  "round_trip_linemod two_faces_linemod ''ape'' 1 = Inl IndexError"
proof -
  have v: "get_vertices two_faces_linemod ''ape'' =
             Inr [(0, 0, 1), (0, 3, 1), (0, 0, 4), (0, 3, 4)]"
    by (simp add: get_vertices_def two_faces_linemod_def)
  have "\<exists>table. get_color_to_3dpoints_arrays_linemod two_faces_linemod ''ape'' = Inr table"
    by (simp add: get_color_to_3dpoints_arrays_linemod_def v ebind_def color_uv_def Let_def)
       (simp add: two_faces_linemod_def first_sample_def)
  then obtain table where
    t: "get_color_to_3dpoints_arrays_linemod two_faces_linemod ''ape'' = Inr table" ..
  show ?thesis
    by (rule top_vertex_is_not_in_the_table[OF v _ _ _ t]) simp_all
qed

end
